theory Spec2Isabelle
  imports Main
begin

section \<open>The script sandbox of the editor (Editor/script.py)\<close>

text \<open>
  \<^verbatim>\<open>LuaScriptSandbox\<close> holds one Lua runtime (lupa's \<^verbatim>\<open>LuaRuntime\<close>), the current
  node's data and the player data. \<^verbatim>\<open>execute\<close> builds an environment table in the
  runtime, injects the node's and the player's values, runs the user's script in it under
  \<^verbatim>\<open>load\<close> and \<^verbatim>\<open>pcall\<close>, and reads the results back.

  The Python code is modelled by explicit state passing. The Lua runtime is a heap of
  tables: tables are the only mutable Lua objects the harness creates, and the three
  library tables are shared by every call, since there is a single runtime per sandbox.
  The interpreter itself is not part of the repository: \<^verbatim>\<open>execute\<close> takes it as a
  parameter (a loader, from source text to a chunk), and a fragment of Lua is given
  further down as one such loader, for statements about particular scripts.
\<close>

subsection \<open>Values on the two sides of the boundary\<close>

text \<open>
  Lua values. \<open>VTab r\<close> is a reference to the table at address \<open>r\<close> of the runtime.
  \<open>VOpaque name\<close> is a value of the standard library that the model does not look
  into (a function such as \<^verbatim>\<open>pairs\<close> or \<^verbatim>\<open>math.floor\<close>, a constant such as
  \<^verbatim>\<open>math.pi\<close>). \<open>VProxy i\<close> is the userdata lupa wraps around a Python object that
  it does not convert: here the \<open>i\<close>-th choice record of the node.
\<close>

datatype lval =
    VNil
  | VBool bool
  | VNum int
  | VStr string
  | VTab nat
  | VOpaque string
  | VProxy nat

text \<open>
  Python values that cross the boundary: the scalars of player data, and what lupa hands
  back for a Lua table (\<open>PLuaTab\<close>, a \<^verbatim>\<open>_LuaTable\<close> wrapper), for a library value
  (\<open>PLuaOpaque\<close>) and for a wrapped Python object (\<open>PObj\<close>, the object itself).
  Numbers are the integers; the model says nothing about floats or about integers that a
  Lua number does not hold exactly.
\<close>

datatype py =
    PNone
  | PBool bool
  | PInt int
  | PStr string
  | PLuaTab nat
  | PLuaOpaque string
  | PObj nat

text \<open>lupa's \<^verbatim>\<open>py_to_lua\<close> and \<^verbatim>\<open>py_from_lua\<close>.\<close>

fun to_lua :: "py \<Rightarrow> lval" where
  "to_lua PNone = VNil"
| "to_lua (PBool b) = VBool b"
| "to_lua (PInt n) = VNum n"
| "to_lua (PStr s) = VStr s"
| "to_lua (PLuaTab r) = VTab r"
| "to_lua (PLuaOpaque f) = VOpaque f"
| "to_lua (PObj i) = VProxy i"

fun from_lua :: "lval \<Rightarrow> py" where
  "from_lua VNil = PNone"
| "from_lua (VBool b) = PBool b"
| "from_lua (VNum n) = PInt n"
| "from_lua (VStr s) = PStr s"
| "from_lua (VTab r) = PLuaTab r"
| "from_lua (VOpaque f) = PLuaOpaque f"
| "from_lua (VProxy i) = PObj i"

subsection \<open>Python dictionaries\<close>

text \<open>
  A dict is an association list in insertion order. \<open>dict_set\<close> is \<^verbatim>\<open>d[k] = v\<close>: an
  existing key keeps its place and gets the new value, a new key goes to the end.
\<close>

fun dict_set :: "('k \<times> 'v) list \<Rightarrow> 'k \<Rightarrow> 'v \<Rightarrow> ('k \<times> 'v) list" where
  "dict_set [] k v = [(k, v)]"
| "dict_set ((k', v') # d) k v =
     (if k' = k then (k, v) # d else (k', v') # dict_set d k v)"

text \<open>
  A choice record, as the editor builds it
  (\<^verbatim>\<open>{"emoji": "", "id": new_id, "text": "", "script": "", "parent": ...}\<close>): a dict
  from field names to strings. The node data: \<^verbatim>\<open>execute\<close> reads its three keys with
  \<^verbatim>\<open>.get(key, default)\<close>, so each may be absent.
\<close>

type_synonym choice = "(string \<times> string) list"

record node =
  url :: "string option"
  description :: "string option"
  choices :: "choice list option"

datatype pyexc = KeyError string

subsection \<open>The Lua runtime\<close>

text \<open>
  A table maps every key to a value, \<^verbatim>\<open>nil\<close> where nothing is stored. The runtime
  is the store of tables and the next free address.
\<close>

type_synonym ltable = "lval \<Rightarrow> lval"

record runtime =
  tabs :: "nat \<Rightarrow> ltable"
  next_tab :: nat

definition new_table :: "runtime \<Rightarrow> nat \<times> runtime" where
  "new_table rt =
     (next_tab rt,
      rt\<lparr>tabs := (tabs rt)(next_tab rt := (\<lambda>k. VNil)), next_tab := Suc (next_tab rt)\<rparr>)"

definition tab_get :: "runtime \<Rightarrow> nat \<Rightarrow> lval \<Rightarrow> lval" where
  "tab_get rt r k = tabs rt r k"

definition tab_set :: "runtime \<Rightarrow> nat \<Rightarrow> lval \<Rightarrow> lval \<Rightarrow> runtime" where
  "tab_set rt r k v = rt\<lparr>tabs := (tabs rt)(r := (tabs rt r)(k := v))\<rparr>"

text \<open>
  The library tables that \<^verbatim>\<open>LuaRuntime()\<close> opens and the sandbox hands on:
  \<^verbatim>\<open>math\<close>, \<^verbatim>\<open>string\<close>, \<^verbatim>\<open>table\<close>, at addresses 0, 1, 2. Their fields are
  the names of Lua 5.1 to 5.4; each holds an opaque value.
\<close>

definition math_ref :: nat where "math_ref = 0"
definition string_ref :: nat where "string_ref = 1"
definition table_ref :: nat where "table_ref = 2"

definition lib_fields :: "nat \<Rightarrow> string list" where
  "lib_fields r =
     (if r = 0 then
        [''abs'', ''acos'', ''asin'', ''atan'', ''atan2'', ''ceil'', ''cos'', ''cosh'',
         ''deg'', ''exp'', ''floor'', ''fmod'', ''frexp'', ''huge'', ''ldexp'', ''log'',
         ''log10'', ''max'', ''maxinteger'', ''min'', ''mininteger'', ''mod'', ''modf'',
         ''pi'', ''pow'', ''rad'', ''random'', ''randomseed'', ''sin'', ''sinh'', ''sqrt'',
         ''tan'', ''tanh'', ''tointeger'', ''type'', ''ult'']
      else if r = 1 then
        [''byte'', ''char'', ''dump'', ''find'', ''format'', ''gfind'', ''gmatch'',
         ''gsub'', ''len'', ''lower'', ''match'', ''pack'', ''packsize'', ''rep'',
         ''reverse'', ''sub'', ''unpack'', ''upper'']
      else if r = 2 then
        [''concat'', ''foreach'', ''foreachi'', ''getn'', ''insert'', ''maxn'', ''move'',
         ''pack'', ''remove'', ''sort'', ''unpack'']
      else [])"

definition lib_name :: "nat \<Rightarrow> string" where
  "lib_name r = (if r = 0 then ''math'' else if r = 1 then ''string'' else ''table'')"

fun lib_table :: "nat \<Rightarrow> ltable" where
  "lib_table r (VStr f) =
     (if f \<in> set (lib_fields r) then VOpaque (lib_name r @ ''.'' @ f) else VNil)"
| "lib_table r k = VNil"

definition new_runtime :: runtime where
  "new_runtime = \<lparr>tabs = lib_table, next_tab = 3\<rparr>"

subsection \<open>The sandbox object\<close>

record sandbox =
  lua :: runtime
  cur_node :: node
  player_data :: "(string \<times> py) list"

text \<open>\<^verbatim>\<open>__init__\<close>: a new runtime, and the two arguments kept as they are.\<close>

definition init :: "node \<Rightarrow> (string \<times> py) list \<Rightarrow> sandbox" where
  "init current_node_data player = \<lparr>lua = new_runtime, cur_node = current_node_data,
     player_data = player\<rparr>"

text \<open>
  \<^verbatim>\<open>_to_lua_safe_id\<close>: \<^verbatim>\<open>str(original_id).replace('-', '_')\<close>. The identifiers are
  strings, on which \<^verbatim>\<open>str\<close> is the identity.
\<close>

definition to_lua_safe_id :: "string \<Rightarrow> string" where
  "to_lua_safe_id original_id =
     map (\<lambda>c. if c = CHR ''-'' then CHR ''_'' else c) original_id"

subsection \<open>Building the environment\<close>

text \<open>
  Step 1 of \<^verbatim>\<open>execute\<close>: the table constructor evaluated in the runtime. It makes a
  new table and stores in it the values of eight globals: the three library tables
  themselves (not copies) and five library functions.
\<close>

definition eval_env_table :: "runtime \<Rightarrow> nat \<times> runtime" where
  "eval_env_table rt =
     (let (t, rt0) = new_table rt;
          rt1 = tab_set rt0 t (VStr ''math'') (VTab math_ref);
          rt2 = tab_set rt1 t (VStr ''string'') (VTab string_ref);
          rt3 = tab_set rt2 t (VStr ''table'') (VTab table_ref);
          rt4 = tab_set rt3 t (VStr ''pairs'') (VOpaque ''pairs'');
          rt5 = tab_set rt4 t (VStr ''ipairs'') (VOpaque ''ipairs'');
          rt6 = tab_set rt5 t (VStr ''tonumber'') (VOpaque ''tonumber'');
          rt7 = tab_set rt6 t (VStr ''tostring'') (VOpaque ''tostring'');
          rt8 = tab_set rt7 t (VStr ''print'') (VOpaque ''print'')
      in (t, rt8))"

text \<open>The \<^verbatim>\<open>.get(key, default)\<close> reads of the node data.\<close>

definition get_url :: "node \<Rightarrow> string" where
  "get_url n = (case url n of None \<Rightarrow> [] | Some u \<Rightarrow> u)"

definition get_description :: "node \<Rightarrow> string" where
  "get_description n = (case description n of None \<Rightarrow> [] | Some d \<Rightarrow> d)"

definition get_choices :: "node \<Rightarrow> choice list" where
  "get_choices n = (case choices n of None \<Rightarrow> [] | Some cs \<Rightarrow> cs)"

text \<open>
  \<^verbatim>\<open>table_from\<close> on a list: a new table with the items at the keys 1, 2, ... . It does
  not convert nested containers (lupa's default, \<^verbatim>\<open>recursive=False\<close>): a dict becomes
  a proxy of the Python object. The \<open>i\<close>-th record (from 0) is the object \<open>VProxy i\<close>.
\<close>

definition table_from :: "runtime \<Rightarrow> choice list \<Rightarrow> nat \<times> runtime" where
  "table_from rt items =
     (let (t, rt0) = new_table rt
      in (t, fold (\<lambda>i r. tab_set r t (VNum (int i + 1)) (VProxy i)) [0..<length items] rt0))"

text \<open>The loop over \<^verbatim>\<open>self.player_data.items()\<close>.\<close>

definition inject_player :: "runtime \<Rightarrow> nat \<Rightarrow> (string \<times> py) list \<Rightarrow> runtime" where
  "inject_player rt env pd = fold (\<lambda>(k, v) r. tab_set r env (VStr k) (to_lua v)) pd rt"

text \<open>
  The loop over the choices. \<^verbatim>\<open>choice['id']\<close> raises \<^verbatim>\<open>KeyError\<close> on a record
  without that key, and the loop stops there. \<open>choice_map\<close> is the dict from safe name
  to real identifier.
\<close>

fun inject_choices ::
  "runtime \<Rightarrow> nat \<Rightarrow> choice list \<Rightarrow> (string \<times> string) list
     \<Rightarrow> runtime \<times> (pyexc + (string \<times> string) list)" where
  "inject_choices rt env [] choice_map = (rt, Inr choice_map)"
| "inject_choices rt env (choice # rest) choice_map =
     (case map_of choice ''id'' of
        None \<Rightarrow> (rt, Inl (KeyError ''id''))
      | Some real_id \<Rightarrow>
          (let safe_id = to_lua_safe_id real_id
           in inject_choices (tab_set rt env (VStr (''choice_'' @ safe_id)) (VBool True)) env
                rest (dict_set choice_map safe_id real_id)))"

text \<open>Steps 1 and 2 together: the environment table and the reverse table.\<close>

definition prepare :: "sandbox \<Rightarrow> nat \<times> runtime \<times> (pyexc + (string \<times> string) list)" where
  "prepare self =
     (let (sandbox_env, rt0) = eval_env_table (lua self);
          rt1 = tab_set rt0 sandbox_env (VStr ''url'') (to_lua (PStr (get_url (cur_node self))));
          rt2 = tab_set rt1 sandbox_env (VStr ''description'')
                  (to_lua (PStr (get_description (cur_node self))));
          (ctab, rt3) = table_from rt2 (get_choices (cur_node self));
          rt4 = tab_set rt3 sandbox_env (VStr ''choices'') (VTab ctab);
          rt5 = inject_player rt4 sandbox_env (player_data self);
          (rt6, r) = inject_choices rt5 sandbox_env (get_choices (cur_node self)) []
      in (sandbox_env, rt6, r))"

subsection \<open>Running the script\<close>

text \<open>
  What a script can reach and change: the runtime, and the choice records behind the
  proxies. A chunk is run on an environment table and either does not return (\<open>None\<close>),
  or ends normally, or ends with a Lua error that \<^verbatim>\<open>pcall\<close> catches, or makes the
  call of the wrapper itself raise in Python (\<open>RunCrash\<close>). A loader is Lua's
  \<^verbatim>\<open>load\<close>: it gives the error message of the compiler or the chunk; \<open>None\<close> where a
  loader has no answer.
\<close>

record host =
  h_rt :: runtime
  h_objs :: "choice list"

datatype run_status = RunOk | RunError string | RunCrash string

type_synonym chunk = "nat \<Rightarrow> host \<Rightarrow> (run_status \<times> host) option"

type_synonym loader = "string \<Rightarrow> (string + chunk) option"

text \<open>
  \<^verbatim>\<open>safe_wrapper(sandbox_env, user_script)\<close>: what the Python call gives back, a raised
  exception, or \<^verbatim>\<open>(False, message)\<close>, or \<^verbatim>\<open>(True, env)\<close>.
\<close>

datatype wrapped = WRaised string | WFalse string | WTrue nat

definition safe_wrapper :: "loader \<Rightarrow> nat \<Rightarrow> string \<Rightarrow> host \<Rightarrow> (wrapped \<times> host) option" where
  "safe_wrapper ld env code h =
     (case ld code of
        None \<Rightarrow> None
      | Some (Inl err) \<Rightarrow> Some (WFalse (''Syntax Error: '' @ err), h)
      | Some (Inr chunk) \<Rightarrow>
          (case chunk env h of
             None \<Rightarrow> None
           | Some (RunOk, h') \<Rightarrow> Some (WTrue env, h')
           | Some (RunError res, h') \<Rightarrow> Some (WFalse (''Runtime Error: '' @ res), h')
           | Some (RunCrash e, h') \<Rightarrow> Some (WRaised e, h')))"

subsection \<open>Reading the results back\<close>

definition extract_player :: "runtime \<Rightarrow> nat \<Rightarrow> (string \<times> py) list \<Rightarrow> (string \<times> py) list" where
  "extract_player rt updated_env pd =
     fold (\<lambda>k new_player_data.
             dict_set new_player_data k (from_lua (tab_get rt updated_env (VStr k))))
       (map fst pd) []"

definition extract_choices ::
  "runtime \<Rightarrow> nat \<Rightarrow> (string \<times> string) list \<Rightarrow> (string \<times> py) list" where
  "extract_choices rt updated_env choice_map =
     fold (\<lambda>(safe_id, real_id) choice_bools.
             dict_set choice_bools real_id
               (from_lua (tab_get rt updated_env (VStr (''choice_'' @ safe_id)))))
       choice_map []"

record exec_result =
  res_url :: py
  res_description :: py
  res_player_data :: "(string \<times> py) list"
  res_choices_visibility :: "(string \<times> py) list"

subsection \<open>execute\<close>

text \<open>
  A call of \<^verbatim>\<open>execute\<close> either raises or returns, \<^verbatim>\<open>None\<close> or the result dict.
  With it come the sandbox object after the call (its runtime, and its node data with
  the choice records as the script left them) and the lines that the Python code of
  \<^verbatim>\<open>execute\<close> prints (what a script writes with Lua's \<^verbatim>\<open>print\<close> is not
  recorded). The whole is \<open>None\<close> when the call does not return.
\<close>

datatype outcome = Raised pyexc | Returned "exec_result option"

definition store_objs :: "node \<Rightarrow> choice list \<Rightarrow> node" where
  "store_objs n objs = (case choices n of None \<Rightarrow> n | Some cs \<Rightarrow> n\<lparr>choices := Some objs\<rparr>)"

definition execute :: "loader \<Rightarrow> sandbox \<Rightarrow> string \<Rightarrow> (sandbox \<times> string list \<times> outcome) option" where
  "execute ld self user_script =
     (case prepare self of
        (sandbox_env, rt, Inl exc) \<Rightarrow> Some (self\<lparr>lua := rt\<rparr>, [], Raised exc)
      | (sandbox_env, rt, Inr choice_map) \<Rightarrow>
          (case safe_wrapper ld sandbox_env user_script
                  \<lparr>h_rt = rt, h_objs = get_choices (cur_node self)\<rparr> of
             None \<Rightarrow> None
           | Some (w, h) \<Rightarrow>
               (let self' = self\<lparr>lua := h_rt h, cur_node := store_objs (cur_node self) (h_objs h)\<rparr>
                in case w of
                     WRaised e \<Rightarrow> Some (self', [''Sandbox Crash: '' @ e], Returned None)
                   | WFalse result_or_error \<Rightarrow> Some (self', [result_or_error], Returned None)
                   | WTrue updated_env \<Rightarrow>
                       Some (self', [],
                         Returned (Some
                           \<lparr>res_url = from_lua (tab_get (h_rt h) updated_env (VStr ''url'')),
                            res_description =
                              from_lua (tab_get (h_rt h) updated_env (VStr ''description'')),
                            res_player_data =
                              extract_player (h_rt h) updated_env (player_data self),
                            res_choices_visibility =
                              extract_choices (h_rt h) updated_env choice_map\<rparr>)))))"

subsection \<open>Vocabulary of the properties\<close>

text \<open>
  The identifiers of the choices that have one, in the order of the node's list; when
  \<^verbatim>\<open>execute\<close> gets past the injection loop, these are the identifiers of all the
  choices. \<open>flag_name\<close> is the name of the flag of a choice in the environment.
\<close>

definition choice_ids :: "choice list \<Rightarrow> string list" where
  "choice_ids cs = List.map_filter (\<lambda>c. map_of c ''id'') cs"

definition flag_name :: "string \<Rightarrow> string" where
  "flag_name real_id = ''choice_'' @ to_lua_safe_id real_id"


text \<open>
  The value of the global \<open>k\<close> in the environment as \<^verbatim>\<open>execute\<close> hands it to the
  script, and its value when the script has ended normally. A script leaves \<open>k\<close>
  untouched when the two agree; a script that never assigns \<open>k\<close> does.
\<close>

definition injected :: "sandbox \<Rightarrow> string \<Rightarrow> lval" where
  "injected self k = (case prepare self of (env, rt, r) \<Rightarrow> tab_get rt env (VStr k))"

definition after_run :: "loader \<Rightarrow> sandbox \<Rightarrow> string \<Rightarrow> string \<Rightarrow> lval option" where
  "after_run ld self user_script k =
     (case prepare self of
        (sandbox_env, rt, r) \<Rightarrow>
          (case safe_wrapper ld sandbox_env user_script
                  \<lparr>h_rt = rt, h_objs = get_choices (cur_node self)\<rparr> of
             Some (WTrue updated_env, h) \<Rightarrow> Some (tab_get (h_rt h) updated_env (VStr k))
           | _ \<Rightarrow> None))"

definition untouched :: "loader \<Rightarrow> sandbox \<Rightarrow> string \<Rightarrow> string \<Rightarrow> bool" where
  "untouched ld self user_script k = (after_run ld self user_script k = Some (injected self k))"

text \<open>The parts of what a call gives: the returned dict, and the sandbox afterwards.\<close>

definition result_of :: "(sandbox \<times> string list \<times> outcome) option \<Rightarrow> exec_result option" where
  "result_of x = (case x of Some (s, out, Returned (Some r)) \<Rightarrow> Some r | _ \<Rightarrow> None)"

definition outcome_of :: "(sandbox \<times> string list \<times> outcome) option \<Rightarrow> outcome option" where
  "outcome_of x = (case x of Some (s, out, oc) \<Rightarrow> Some oc | None \<Rightarrow> None)"

definition printed_of :: "(sandbox \<times> string list \<times> outcome) option \<Rightarrow> string list" where
  "printed_of x = (case x of Some (s, out, oc) \<Rightarrow> out | None \<Rightarrow> [])"

definition sandbox_after :: "sandbox \<Rightarrow> (sandbox \<times> string list \<times> outcome) option \<Rightarrow> sandbox" where
  "sandbox_after self x = (case x of Some (s, out, oc) \<Rightarrow> s | None \<Rightarrow> self)"

text \<open>The environment after the loops over the node and the player data, before the flags.\<close>

definition player_env :: "sandbox \<Rightarrow> runtime" where
  "player_env self =
     (let env = next_tab (lua self);
          rt0 = snd (eval_env_table (lua self));
          rt1 = tab_set rt0 env (VStr ''url'') (VStr (get_url (cur_node self)));
          rt2 = tab_set rt1 env (VStr ''description'') (VStr (get_description (cur_node self)));
          rt3 = snd (table_from rt2 (get_choices (cur_node self)));
          rt4 = tab_set rt3 env (VStr ''choices'') (VTab (Suc env))
      in inject_player rt4 env (player_data self))"

section \<open>A fragment of Lua\<close>

text \<open>
  The interpreter behind \<^verbatim>\<open>load\<close> and \<^verbatim>\<open>pcall\<close> is lupa's Lua, not code of the
  repository. For statements about particular scripts, a fragment of the language is
  modelled here and used as a loader: assignments to globals and to fields, calls,
  \<^verbatim>\<open>if\<close> with \<^verbatim>\<open>elseif\<close> and \<^verbatim>\<open>else\<close>, the operators
  \<^verbatim>\<open>+ - * < > <= >= == ~= and or\<close>, integer numerals, short strings without escapes,
  line comments. On any script outside the fragment the loader has no answer
  (\<open>None\<close>), and so has a chunk that reaches an operation the model does not
  interpret, such as the call of a library function. The fragment has no loops and no
  function definitions: its chunks always end. The texts of the error messages are
  placeholders for Lua's own.
\<close>

subsection \<open>Tokens\<close>

datatype token = TName string | TNum int | TStr string | TKw string | TSym string

definition is_space :: "char \<Rightarrow> bool" where
  "is_space c = (c \<in> set [CHR '' '', CHR 0x09, CHR 0x0A, CHR 0x0B, CHR 0x0C, CHR 0x0D])"

definition is_digit :: "char \<Rightarrow> bool" where
  "is_digit c = (c \<in> set ''0123456789'')"

definition is_alpha :: "char \<Rightarrow> bool" where
  "is_alpha c = (c \<in> set ''abcdefghijklmnopqrstuvwxyzABCDEFGHIJKLMNOPQRSTUVWXYZ_'')"

definition is_alnum :: "char \<Rightarrow> bool" where
  "is_alnum c = (is_alpha c \<or> is_digit c)"

definition number_of :: "string \<Rightarrow> int" where
  "number_of ds = foldl (\<lambda>n d. 10 * n + (of_char d - 48)) 0 ds"

text \<open>The reserved words of Lua; the fragment has the first ten.\<close>

definition fragment_keywords :: "string list" where
  "fragment_keywords = [''and'', ''or'', ''nil'', ''true'', ''false'', ''if'', ''then'',
     ''else'', ''elseif'', ''end'']"

definition other_keywords :: "string list" where
  "other_keywords = [''break'', ''do'', ''for'', ''function'', ''goto'', ''in'', ''local'',
     ''not'', ''repeat'', ''return'', ''until'', ''while'']"

definition word_token :: "string \<Rightarrow> token option" where
  "word_token w =
     (if w \<in> set fragment_keywords then Some (TKw w)
      else if w \<in> set other_keywords then None
      else Some (TName w))"

text \<open>
  The symbol at the head of the input, with its length. Every symbol of Lua that is not
  here (\<^verbatim>\<open>..\<close>, \<^verbatim>\<open>/\<close>, \<^verbatim>\<open>#\<close>, \<^verbatim>\<open>{\<close>, \<^verbatim>\<open>:\<close>, long brackets, ...) is outside the
  fragment.
\<close>

fun symbol_at :: "string \<Rightarrow> (string \<times> nat) option" where
  "symbol_at (c # d # cs) =
     (if [c, d] \<in> set [''=='', ''~='', ''<='', ''>=''] then Some ([c, d], 2)
      else if [c, d] \<in> set [''..'', ''[['', ''[='', ''<<'', ''>>'', ''::''] then None
      else if c = CHR ''.'' \<and> is_digit d then None
      else if c \<in> set ''=<>+-*()[].,;'' then Some ([c], 1)
      else None)"
| "symbol_at [c] = (if c \<in> set ''=<>+-*()[].,;'' then Some ([c], 1) else None)"
| "symbol_at [] = None"

function lex :: "string \<Rightarrow> token list option" where
  "lex [] = Some []"
| "lex (c # cs) =
     (if is_space c then lex cs
      else if c = CHR ''-'' \<and> take 1 cs = ''-'' then
        (if take 1 (drop 1 cs) = ''['' then None
         else lex (dropWhile (\<lambda>x. x \<noteq> CHR 0x0A) (drop 1 cs)))
      else if is_alpha c then
        (case word_token (c # takeWhile is_alnum cs) of
           None \<Rightarrow> None
         | Some t \<Rightarrow> map_option ((#) t) (lex (dropWhile is_alnum cs)))
      else if is_digit c then
        (if take 1 (dropWhile is_digit cs) \<noteq> [] \<and>
            (is_alpha (hd (dropWhile is_digit cs)) \<or> hd (dropWhile is_digit cs) = CHR ''.'')
         then None
         else map_option ((#) (TNum (number_of (c # takeWhile is_digit cs))))
                (lex (dropWhile is_digit cs)))
      else if c = CHR 0x22 \<or> c = CHR 0x27 then
        (let body = takeWhile (\<lambda>x. x \<noteq> c \<and> x \<noteq> CHR 0x5C \<and> x \<noteq> CHR 0x0A) cs;
             rest = drop (length body) cs
         in if take 1 rest = [c] then map_option ((#) (TStr body)) (lex (drop 1 rest))
            else None)
      else
        (case symbol_at (c # cs) of
           None \<Rightarrow> None
         | Some (s, n) \<Rightarrow> map_option ((#) (TSym s)) (lex (drop (n - 1) cs))))"
  by pat_completeness auto
termination
  by (relation "measure length")
     (auto simp: less_Suc_eq_le intro: le_trans [OF length_dropWhile_le] )

subsection \<open>Syntax\<close>

datatype binop = BAdd | BSub | BMul | BLt | BGt | BLe | BGe | BEq | BNe | BAnd | BOr

datatype expr =
    ENil
  | EFalse
  | ETrue
  | ENum int
  | EStr string
  | EVar string
  | EParen expr
  | EIndex expr expr
  | ECall expr "expr list"
  | EBin binop expr expr

datatype stat =
    SAssignGlobal string expr
  | SAssignIndex expr expr expr
  | SCall expr "expr list"
  | SIf expr "stat list" "stat list"

text \<open>
  The parser follows Lua's own (lparser.c): \<^verbatim>\<open>simpleexp\<close>, \<^verbatim>\<open>suffixedexp\<close>,
  \<^verbatim>\<open>subexpr\<close> with the priorities of the binary operators, \<^verbatim>\<open>test_then_block\<close>,
  \<^verbatim>\<open>exprstat\<close>, \<^verbatim>\<open>statlist\<close>. It is one function, by recursion on a bound of the
  depth, with the phrase to read as an argument. It says that the source is wrong
  (\<open>PSyntax\<close>) in two cases only: the input ends where the \<^verbatim>\<open>end\<close> of an \<^verbatim>\<open>if\<close>
  is due, or goes on after the last statement of the chunk. Everything else that it
  cannot read counts as outside the fragment (\<open>PUnsupported\<close>), and so does a source
  for which the bound is too small.
\<close>

datatype 'a presult = PUnsupported | PSyntax string | POk 'a "token list"

datatype phrase =
    NSimple
  | NSuffix expr
  | NArgs
  | NSubexpr nat
  | NBinops nat expr
  | NIf
  | NBlock

datatype tree = TExpr expr | TArgs "expr list" | TStat stat | TBlock "stat list"

fun binop_of :: "token \<Rightarrow> (binop \<times> nat) option" where
  "binop_of (TKw w) =
     (if w = ''or'' then Some (BOr, 1) else if w = ''and'' then Some (BAnd, 2) else None)"
| "binop_of (TSym s) =
     (if s = ''<'' then Some (BLt, 3) else if s = ''>'' then Some (BGt, 3)
      else if s = ''<='' then Some (BLe, 3) else if s = ''>='' then Some (BGe, 3)
      else if s = ''=='' then Some (BEq, 3) else if s = ''~='' then Some (BNe, 3)
      else if s = ''+'' then Some (BAdd, 10) else if s = ''-'' then Some (BSub, 10)
      else if s = ''*'' then Some (BMul, 11) else None)"
| "binop_of t = None"

fun block_follow :: "token list \<Rightarrow> bool" where
  "block_follow [] = True"
| "block_follow (TKw w # ts) = (w \<in> set [''else'', ''elseif'', ''end''])"
| "block_follow (t # ts) = False"

fun starts_exprstat :: "token list \<Rightarrow> bool" where
  "starts_exprstat (TName x # r) = True"
| "starts_exprstat (TSym s # r) = (s = ''('')"
| "starts_exprstat ts = False"

fun assign_stat :: "expr \<Rightarrow> expr \<Rightarrow> stat option" where
  "assign_stat (EVar x) v = Some (SAssignGlobal x v)"
| "assign_stat (EIndex t k) v = Some (SAssignIndex t k v)"
| "assign_stat e v = None"

fun call_stat :: "expr \<Rightarrow> stat option" where
  "call_stat (ECall f as) = Some (SCall f as)"
| "call_stat e = None"

text \<open>Sequencing: go on with the expression (list, statement, block) just read.\<close>

fun then_expr :: "tree presult \<Rightarrow> (expr \<Rightarrow> token list \<Rightarrow> tree presult) \<Rightarrow> tree presult" where
  "then_expr (POk (TExpr e) r) f = f e r"
| "then_expr (PSyntax m) f = PSyntax m"
| "then_expr p f = PUnsupported"

fun then_args :: "tree presult \<Rightarrow> (expr list \<Rightarrow> token list \<Rightarrow> tree presult) \<Rightarrow> tree presult" where
  "then_args (POk (TArgs as) r) f = f as r"
| "then_args (PSyntax m) f = PSyntax m"
| "then_args p f = PUnsupported"

fun then_stat :: "tree presult \<Rightarrow> (stat \<Rightarrow> token list \<Rightarrow> tree presult) \<Rightarrow> tree presult" where
  "then_stat (POk (TStat s) r) f = f s r"
| "then_stat (PSyntax m) f = PSyntax m"
| "then_stat p f = PUnsupported"

fun then_block :: "tree presult \<Rightarrow> (stat list \<Rightarrow> token list \<Rightarrow> tree presult) \<Rightarrow> tree presult" where
  "then_block (POk (TBlock b) r) f = f b r"
| "then_block (PSyntax m) f = PSyntax m"
| "then_block p f = PUnsupported"

fun expect :: "token \<Rightarrow> token list \<Rightarrow> (token list \<Rightarrow> tree presult) \<Rightarrow> tree presult" where
  "expect t (t' # r) f = (if t' = t then f r else PUnsupported)"
| "expect t [] f = PUnsupported"

fun cons_stat :: "stat option \<Rightarrow> tree presult \<Rightarrow> tree presult" where
  "cons_stat (Some s) p = then_block p (\<lambda>b r. POk (TBlock (s # b)) r)"
| "cons_stat None p = PUnsupported"

primrec parse :: "nat \<Rightarrow> phrase \<Rightarrow> token list \<Rightarrow> tree presult" where
  "parse 0 nt ts = PUnsupported"
| "parse (Suc n) nt ts =
     (case nt of
        NSimple \<Rightarrow>
          (case ts of
             TNum i # r \<Rightarrow> POk (TExpr (ENum i)) r
           | TStr s # r \<Rightarrow> POk (TExpr (EStr s)) r
           | TKw w # r \<Rightarrow>
               (if w = ''nil'' then POk (TExpr ENil) r
                else if w = ''true'' then POk (TExpr ETrue) r
                else if w = ''false'' then POk (TExpr EFalse) r
                else PUnsupported)
           | TName x # r \<Rightarrow> parse n (NSuffix (EVar x)) r
           | TSym s # r \<Rightarrow>
               (if s = ''('' then
                  then_expr (parse n (NSubexpr 0) r) (\<lambda>e r'.
                    expect (TSym '')'') r' (\<lambda>r''. parse n (NSuffix (EParen e)) r''))
                else PUnsupported)
           | [] \<Rightarrow> PUnsupported)
      | NSuffix e \<Rightarrow>
          (case ts of
             TSym s # r \<Rightarrow>
               (if s = ''.'' then
                  (case r of
                     TName x # r' \<Rightarrow> parse n (NSuffix (EIndex e (EStr x))) r'
                   | _ \<Rightarrow> PUnsupported)
                else if s = ''['' then
                  then_expr (parse n (NSubexpr 0) r) (\<lambda>k r'.
                    expect (TSym '']'') r' (\<lambda>r''. parse n (NSuffix (EIndex e k)) r''))
                else if s = ''('' then
                  (if take 1 r = [TSym '')''] then parse n (NSuffix (ECall e [])) (drop 1 r)
                   else then_args (parse n NArgs r) (\<lambda>as r'. parse n (NSuffix (ECall e as)) r'))
                else POk (TExpr e) ts)
           | TStr a # r \<Rightarrow> parse n (NSuffix (ECall e [EStr a])) r
           | _ \<Rightarrow> POk (TExpr e) ts)
      | NArgs \<Rightarrow>
          then_expr (parse n (NSubexpr 0) ts) (\<lambda>a r.
            if take 1 r = [TSym '')''] then POk (TArgs [a]) (drop 1 r)
            else if take 1 r = [TSym '',''] then
              then_args (parse n NArgs (drop 1 r)) (\<lambda>as r'. POk (TArgs (a # as)) r')
            else PUnsupported)
      | NSubexpr limit \<Rightarrow>
          then_expr (parse n NSimple ts) (\<lambda>e r. parse n (NBinops limit e) r)
      | NBinops limit e \<Rightarrow>
          (case ts of
             [] \<Rightarrow> POk (TExpr e) ts
           | t # r \<Rightarrow>
               (case binop_of t of
                  None \<Rightarrow> POk (TExpr e) ts
                | Some (op, prio) \<Rightarrow>
                    (if limit < prio then
                       then_expr (parse n (NSubexpr prio) r) (\<lambda>e2 r'.
                         parse n (NBinops limit (EBin op e e2)) r')
                     else POk (TExpr e) ts)))
      | NIf \<Rightarrow>
          then_expr (parse n (NSubexpr 0) ts) (\<lambda>c r.
            expect (TKw ''then'') r (\<lambda>r'.
              then_block (parse n NBlock r') (\<lambda>b r''.
                if r'' = [] then PSyntax ''end expected near <eof>''
                else if take 1 r'' = [TKw ''end''] then POk (TStat (SIf c b [])) (drop 1 r'')
                else if take 1 r'' = [TKw ''elseif''] then
                  then_stat (parse n NIf (drop 1 r'')) (\<lambda>s r3. POk (TStat (SIf c b [s])) r3)
                else if take 1 r'' = [TKw ''else''] then
                  then_block (parse n NBlock (drop 1 r'')) (\<lambda>b2 r3.
                    if r3 = [] then PSyntax ''end expected near <eof>''
                    else expect (TKw ''end'') r3 (\<lambda>r4. POk (TStat (SIf c b b2)) r4))
                else PUnsupported)))
      | NBlock \<Rightarrow>
          (if block_follow ts then POk (TBlock []) ts
           else if take 1 ts = [TSym '';''] then parse n NBlock (drop 1 ts)
           else if take 1 ts = [TKw ''if''] then
             then_stat (parse n NIf (drop 1 ts)) (\<lambda>s r. cons_stat (Some s) (parse n NBlock r))
           else if starts_exprstat ts then
             then_expr (parse n NSimple ts) (\<lambda>e r.
               if take 1 r = [TSym ''=''] then
                 then_expr (parse n (NSubexpr 0) (drop 1 r)) (\<lambda>v r'.
                   if take 1 r' = [TSym '',''] then PUnsupported
                   else cons_stat (assign_stat e v) (parse n NBlock r'))
               else if take 1 r = [TSym '',''] then PUnsupported
               else cons_stat (call_stat e) (parse n NBlock r))
           else PUnsupported))"

definition parse_chunk :: "token list \<Rightarrow> (stat list) presult" where
  "parse_chunk ts =
     (case parse (8 * length ts + 8) NBlock ts of
        POk (TBlock b) [] \<Rightarrow> POk b []
      | POk (TBlock b) (t # r) \<Rightarrow> PSyntax ''<eof> expected''
      | POk t r \<Rightarrow> PUnsupported
      | PSyntax m \<Rightarrow> PSyntax m
      | PUnsupported \<Rightarrow> PUnsupported)"

subsection \<open>Evaluation\<close>

text \<open>
  An expression of the fragment has no effect; it gives a value, or raises a Lua error,
  or is not interpreted. Integers are exact within \<open>2^53\<close> in every Lua (whether its
  numbers are doubles or 64-bit integers); beyond, and on strings where Lua would
  convert or compare by locale, the model gives no answer.
\<close>

datatype 'a res = Unsupported | Err string | Val 'a

definition exact :: "int \<Rightarrow> bool" where
  "exact n = (- 9007199254740992 \<le> n \<and> n \<le> 9007199254740992)"

fun truthy :: "lval \<Rightarrow> bool" where
  "truthy VNil = False"
| "truthy (VBool b) = b"
| "truthy v = True"

fun type_name :: "lval \<Rightarrow> string" where
  "type_name VNil = ''nil''"
| "type_name (VBool b) = ''boolean''"
| "type_name (VNum n) = ''number''"
| "type_name (VStr s) = ''string''"
| "type_name (VTab r) = ''table''"
| "type_name (VOpaque f) = ''function''"
| "type_name (VProxy i) = ''userdata''"

text \<open>
  \<^verbatim>\<open>t[k]\<close>. The tables of the model have no metatable. A string is indexed through
  the metatable of strings, whose \<^verbatim>\<open>__index\<close> is the \<^verbatim>\<open>string\<close> library table. A
  proxy of a dict gives the item of the Python object.
\<close>

fun index_value :: "host \<Rightarrow> lval \<Rightarrow> lval \<Rightarrow> lval res" where
  "index_value h (VTab r) k = Val (tab_get (h_rt h) r k)"
| "index_value h (VStr s) k = Val (tab_get (h_rt h) string_ref k)"
| "index_value h (VProxy i) (VStr k) =
     (if i < length (h_objs h) then
        (case map_of (h_objs h ! i) k of None \<Rightarrow> Unsupported | Some s \<Rightarrow> Val (VStr s))
      else Unsupported)"
| "index_value h (VProxy i) k = Unsupported"
| "index_value h (VOpaque f) k = Unsupported"
| "index_value h v k = Err (''attempt to index a '' @ type_name v @ '' value'')"

fun call_value :: "lval \<Rightarrow> lval res" where
  "call_value (VOpaque f) = Unsupported"
| "call_value (VProxy i) = Unsupported"
| "call_value v = Err (''attempt to call a '' @ type_name v @ '' value'')"

fun arith :: "binop \<Rightarrow> int \<Rightarrow> int \<Rightarrow> int" where
  "arith BAdd a b = a + b"
| "arith BSub a b = a - b"
| "arith BMul a b = a * b"
| "arith op a b = 0"

fun compare :: "binop \<Rightarrow> int \<Rightarrow> int \<Rightarrow> bool" where
  "compare BLt a b = (a < b)"
| "compare BGt a b = (a > b)"
| "compare BLe a b = (a \<le> b)"
| "compare BGe a b = (a \<ge> b)"
| "compare op a b = False"

definition uninterpreted :: "lval \<Rightarrow> bool" where
  "uninterpreted v = (case v of VOpaque f \<Rightarrow> True | VProxy i \<Rightarrow> True
     | VNum n \<Rightarrow> \<not> exact n | _ \<Rightarrow> False)"

definition is_str :: "lval \<Rightarrow> bool" where
  "is_str v = (case v of VStr s \<Rightarrow> True | _ \<Rightarrow> False)"

definition binary :: "binop \<Rightarrow> lval \<Rightarrow> lval \<Rightarrow> lval res" where
  "binary op a b =
     (if uninterpreted a \<or> uninterpreted b then Unsupported
      else if op \<in> set [BAdd, BSub, BMul] then
        (case (a, b) of
           (VNum x, VNum y) \<Rightarrow> if exact (arith op x y) then Val (VNum (arith op x y)) else Unsupported
         | _ \<Rightarrow> if is_str a \<or> is_str b then Unsupported
                else Err ''attempt to perform arithmetic on a value that is not a number'')
      else if op \<in> set [BLt, BGt, BLe, BGe] then
        (case (a, b) of
           (VNum x, VNum y) \<Rightarrow> Val (VBool (compare op x y))
         | _ \<Rightarrow> if is_str a \<and> is_str b then Unsupported
                else Err ''attempt to compare two values'')
      else if op = BEq then Val (VBool (a = b))
      else if op = BNe then Val (VBool (a \<noteq> b))
      else Unsupported)"

fun
  eval :: "nat \<Rightarrow> host \<Rightarrow> expr \<Rightarrow> lval res" and
  eval_args :: "nat \<Rightarrow> host \<Rightarrow> expr list \<Rightarrow> unit res"
where
  "eval env h ENil = Val VNil"
| "eval env h EFalse = Val (VBool False)"
| "eval env h ETrue = Val (VBool True)"
| "eval env h (ENum n) = Val (VNum n)"
| "eval env h (EStr s) = Val (VStr s)"
| "eval env h (EVar x) = Val (tab_get (h_rt h) env (VStr x))"
| "eval env h (EParen e) = eval env h e"
| "eval env h (EIndex e k) =
     (case eval env h e of
        Val v \<Rightarrow> (case eval env h k of
                    Val kv \<Rightarrow> index_value h v kv
                  | Err m \<Rightarrow> Err m
                  | Unsupported \<Rightarrow> Unsupported)
      | Err m \<Rightarrow> Err m
      | Unsupported \<Rightarrow> Unsupported)"
| "eval env h (ECall f as) =
     (case eval env h f of
        Val fv \<Rightarrow> (case eval_args env h as of
                    Val u \<Rightarrow> call_value fv
                  | Err m \<Rightarrow> Err m
                  | Unsupported \<Rightarrow> Unsupported)
      | Err m \<Rightarrow> Err m
      | Unsupported \<Rightarrow> Unsupported)"
| "eval env h (EBin op a b) =
     (case eval env h a of
        Val x \<Rightarrow>
          (if op = BAnd then (if truthy x then eval env h b else Val x)
           else if op = BOr then (if truthy x then Val x else eval env h b)
           else (case eval env h b of
                   Val y \<Rightarrow> binary op x y
                 | Err m \<Rightarrow> Err m
                 | Unsupported \<Rightarrow> Unsupported))
      | Err m \<Rightarrow> Err m
      | Unsupported \<Rightarrow> Unsupported)"
| "eval_args env h [] = Val ()"
| "eval_args env h (a # as) =
     (case eval env h a of
        Val v \<Rightarrow> eval_args env h as
      | Err m \<Rightarrow> Err m
      | Unsupported \<Rightarrow> Unsupported)"

text \<open>
  \<^verbatim>\<open>t[k] = v\<close>. Through a proxy it is \<^verbatim>\<open>obj[k] = v\<close> on the Python dict itself: the
  choice record of the node is changed. The records hold strings, and the model
  follows the assignment of a string only.
\<close>

datatype status = SOk | SErr string | SUnsupported

fun set_index :: "host \<Rightarrow> lval \<Rightarrow> lval \<Rightarrow> lval \<Rightarrow> status \<times> host" where
  "set_index h (VTab r) k v =
     (if k = VNil then (SErr ''index is nil'', h)
      else (SOk, h\<lparr>h_rt := tab_set (h_rt h) r k v\<rparr>))"
| "set_index h (VProxy i) (VStr k) (VStr s) =
     (if i < length (h_objs h)
      then (SOk, h\<lparr>h_objs := (h_objs h)[i := dict_set (h_objs h ! i) k s]\<rparr>)
      else (SUnsupported, h))"
| "set_index h (VProxy i) k v = (SUnsupported, h)"
| "set_index h (VOpaque f) k v = (SUnsupported, h)"
| "set_index h t k v = (SErr (''attempt to index a '' @ type_name t @ '' value''), h)"

fun
  exec_stat :: "nat \<Rightarrow> stat \<Rightarrow> host \<Rightarrow> status \<times> host" and
  exec_block :: "nat \<Rightarrow> stat list \<Rightarrow> host \<Rightarrow> status \<times> host"
where
  "exec_stat env (SAssignGlobal x e) h =
     (case eval env h e of
        Val v \<Rightarrow> (SOk, h\<lparr>h_rt := tab_set (h_rt h) env (VStr x) v\<rparr>)
      | Err m \<Rightarrow> (SErr m, h)
      | Unsupported \<Rightarrow> (SUnsupported, h))"
| "exec_stat env (SAssignIndex t k e) h =
     (case eval env h t of
        Val tv \<Rightarrow>
          (case eval env h k of
             Val kv \<Rightarrow>
               (case eval env h e of
                  Val v \<Rightarrow> set_index h tv kv v
                | Err m \<Rightarrow> (SErr m, h)
                | Unsupported \<Rightarrow> (SUnsupported, h))
           | Err m \<Rightarrow> (SErr m, h)
           | Unsupported \<Rightarrow> (SUnsupported, h))
      | Err m \<Rightarrow> (SErr m, h)
      | Unsupported \<Rightarrow> (SUnsupported, h))"
| "exec_stat env (SCall f as) h =
     (case eval env h (ECall f as) of
        Val v \<Rightarrow> (SOk, h)
      | Err m \<Rightarrow> (SErr m, h)
      | Unsupported \<Rightarrow> (SUnsupported, h))"
| "exec_stat env (SIf c b1 b2) h =
     (case eval env h c of
        Val v \<Rightarrow> (if truthy v then exec_block env b1 h else exec_block env b2 h)
      | Err m \<Rightarrow> (SErr m, h)
      | Unsupported \<Rightarrow> (SUnsupported, h))"
| "exec_block env [] h = (SOk, h)"
| "exec_block env (s # b) h =
     (case exec_stat env s h of
        (SOk, h') \<Rightarrow> exec_block env b h'
      | (SErr m, h') \<Rightarrow> (SErr m, h')
      | (SUnsupported, h') \<Rightarrow> (SUnsupported, h'))"

text \<open>The chunk of a block, and the loader of the fragment.\<close>

definition run_block :: "stat list \<Rightarrow> chunk" where
  "run_block b env h =
     (case exec_block env b h of
        (SOk, h') \<Rightarrow> Some (RunOk, h')
      | (SErr m, h') \<Rightarrow> Some (RunError m, h')
      | (SUnsupported, h') \<Rightarrow> None)"

definition parse_source :: "string \<Rightarrow> (stat list) presult" where
  "parse_source code = (case lex code of None \<Rightarrow> PUnsupported | Some ts \<Rightarrow> parse_chunk ts)"

definition lua_load :: loader where
  "lua_load code =
     (case parse_source code of
        PUnsupported \<Rightarrow> None
      | PSyntax m \<Rightarrow> Some (Inl m)
      | POk b r \<Rightarrow> Some (Inr (run_block b)))"

subsection \<open>Reaching for an unbound symbol\<close>





subsection \<open>Inputs of the examples\<close>

text \<open>The node and the player data of the test at the end of script.py.\<close>

definition node_data :: node where
  "node_data = \<lparr>url = Some ''https://forest.com'', description = Some ''The trees whisper.'',
     choices = Some
       [[(''id'', ''52cd4b74-08d2-4709-8804-e6fa6deebe36''), (''text'', ''Stay'')],
        [(''id'', ''3da81c9d-67bc-4419-ae5a-082c388a6d6d''), (''text'', ''Run'')]]\<rparr>"

definition player_vars :: "(string \<times> py) list" where
  "player_vars = [(''energy'', PInt 20)]"

text \<open>A node with two identifiers that differ only in a hyphen against an underscore.\<close>

definition collision_node :: node where
  "collision_node = \<lparr>url = Some [], description = Some [],
     choices = Some [[(''id'', ''a-b''), (''text'', ''Left'')],
                     [(''id'', ''a_b''), (''text'', ''Right'')]]\<rparr>"

text \<open>A node with a choice record that has no identifier.\<close>

definition broken_node :: node where
  "broken_node = \<lparr>url = Some [], description = Some [],
     choices = Some [[(''text'', ''Stay'')]]\<rparr>"

text \<open>A node with one choice, and player data with a variable named as its flag.\<close>

definition flag_clash_node :: node where
  "flag_clash_node = \<lparr>url = Some [], description = Some [],
     choices = Some [[(''id'', ''a''), (''text'', ''Go'')]]\<rparr>"

definition flag_clash_player :: "(string \<times> py) list" where
  "flag_clash_player = [(''choice_a'', PInt 5)]"

text \<open>
  The scripts: the one of the conditional-visibility example, the unbalanced one, one that
  opens a file, one that counts in the \<^verbatim>\<open>math\<close> table, one that writes to a choice
  record, one that only sets the description.
\<close>

definition script_conditional :: string where
  "script_conditional =
     ''energy = energy + 10'' @ [CHR 0x0A] @
     ''if energy > 25 then'' @ [CHR 0x0A] @
     ''  choice_3da81c9d_67bc_4419_ae5a_082c388a6d6d = false'' @ [CHR 0x0A] @
     ''end''"

definition script_unbalanced :: string where
  "script_unbalanced = ''if true then''"

definition script_open_file :: string where
  "script_open_file = ''io.open(\"save.txt\", \"w\")''"

definition script_counter :: string where
  "script_counter = ''math.n = (math.n or 0) + 1'' @ [CHR 0x0A] @ ''energy = math.n''"

definition script_rename :: string where
  "script_rename = ''choices[1].text = \"x\"''"

definition script_describe :: string where
  "script_describe = ''description = \"You feel energized by the forest.\"''"

text \<open>
  Two scripts that name \<^verbatim>\<open>io\<close>: one opens a file when there is energy enough, one
  opens it only where \<^verbatim>\<open>io\<close> is bound.
\<close>

definition script_save :: string where
  "script_save =
     ''energy = energy + 10'' @ [CHR 0x0A] @
     ''if energy > 25 then'' @ [CHR 0x0A] @
     ''  io.open(\"save.txt\", \"w\")'' @ [CHR 0x0A] @
     ''end''"

definition script_guarded :: string where
  "script_guarded = ''if io then io.open(\"save.txt\", \"w\") end''"

section \<open>Properties of the harness\<close>

subsection \<open>Dictionaries, tables and the injection loops\<close>

lemma map_of_dict_set: "map_of (dict_set d k v) = (map_of d)(k \<mapsto> v)"
  by (induction d) auto

lemma keys_dict_set: "set (map fst (dict_set d k v)) = insert k (set (map fst d))"
  using map_of_dict_set [of d k v] by (simp add: dom_map_of_conv_image_fst [symmetric])

lemma dict_set_new: "k \<notin> set (map fst d) \<Longrightarrow> dict_set d k v = d @ [(k, v)]"
  by (induction d) auto

lemma map_fst_dict_set_old: "k \<in> set (map fst d) \<Longrightarrow> map fst (dict_set d k v) = map fst d"
  by (induction d) force+

lemma choice_ids_Nil: "choice_ids [] = []"
  by (simp add: choice_ids_def map_filter_simps)

lemma choice_ids_Cons:
  "choice_ids (c # cs) = (case map_of c ''id'' of None \<Rightarrow> choice_ids cs | Some i \<Rightarrow> i # choice_ids cs)"
  by (simp add: choice_ids_def map_filter_simps split: option.splits)

lemma inject_choices_ok:
  "\<forall>c\<in>set cs. map_of c ''id'' \<noteq> None \<Longrightarrow>
   inject_choices rt env cs cm =
     (fold (\<lambda>i r. tab_set r env (VStr (flag_name i)) (VBool True)) (choice_ids cs) rt,
      Inr (fold (\<lambda>i m. dict_set m (to_lua_safe_id i) i) (choice_ids cs) cm))"
  by (induction cs arbitrary: rt cm) (auto simp: choice_ids_Nil choice_ids_Cons flag_name_def Let_def)

lemma inject_choices_Inr:
  "inject_choices rt env cs cm = (rt', Inr cm') \<Longrightarrow> \<forall>c\<in>set cs. map_of c ''id'' \<noteq> None"
  by (induction cs arbitrary: rt cm) (auto simp: Let_def split: option.splits)

lemma inject_choices_Inl:
  "\<exists>c\<in>set cs. map_of c ''id'' = None \<Longrightarrow> snd (inject_choices rt env cs cm) = Inl (KeyError ''id'')"
  by (induction cs arbitrary: rt cm) (auto simp: Let_def split: option.splits)

lemma length_choice_ids: "\<forall>c\<in>set cs. map_of c ''id'' \<noteq> None \<Longrightarrow> length (choice_ids cs) = length cs"
  by (induction cs) (auto simp: choice_ids_Nil choice_ids_Cons)

lemma tab_get_tab_set: "tab_get (tab_set rt r k v) r' k' = (if r' = r \<and> k' = k then v else tab_get rt r' k')"
  by (simp add: tab_get_def tab_set_def)

lemma tab_get_fold_flags:
  "tab_get (fold (\<lambda>i r. tab_set r env (VStr (f i)) v) ids rt) r' k =
     (if r' = env \<and> k \<in> (\<lambda>i. VStr (f i)) ` set ids then v else tab_get rt r' k)"
  by (induction ids arbitrary: rt) (auto simp: tab_get_tab_set)

lemma fst_new_table: "fst (new_table rt) = next_tab rt"
  by (simp add: new_table_def)

lemma tab_get_new_table:
  "tab_get (snd (new_table rt)) r k = (if r = next_tab rt then VNil else tab_get rt r k)"
  by (simp add: new_table_def tab_get_def)

lemma next_tab_new_table: "next_tab (snd (new_table rt)) = Suc (next_tab rt)"
  by (simp add: new_table_def)

lemma next_tab_tab_set: "next_tab (tab_set rt r k v) = next_tab rt"
  by (simp add: tab_set_def)

lemma fst_eval_env_table: "fst (eval_env_table rt) = next_tab rt"
  by (simp add: eval_env_table_def Let_def split: prod.splits) (simp add: new_table_def)

lemma next_tab_eval_env_table: "next_tab (snd (eval_env_table rt)) = Suc (next_tab rt)"
  by (simp add: eval_env_table_def Let_def next_tab_tab_set split: prod.splits)
     (simp add: new_table_def)

lemma tab_get_eval_env_table_other:
  "r \<noteq> next_tab rt \<Longrightarrow> tab_get (snd (eval_env_table rt)) r k = tab_get rt r k"
  by (simp add: eval_env_table_def Let_def tab_get_tab_set split: prod.splits)
     (auto simp: new_table_def tab_get_def)


lemma fst_table_from: "fst (table_from rt items) = next_tab rt"
  by (simp add: table_from_def Let_def split: prod.splits) (simp add: new_table_def)

lemma next_tab_fold_tab_set:
  "next_tab (fold (\<lambda>i r. tab_set r t (f i) (g i)) xs rt) = next_tab rt"
  by (induction xs arbitrary: rt) (auto simp: next_tab_tab_set)

lemma tab_get_fold_other:
  "r \<noteq> t \<Longrightarrow> tab_get (fold (\<lambda>i r. tab_set r t (f i) (g i)) xs rt) r k = tab_get rt r k"
  by (induction xs arbitrary: rt) (auto simp: tab_get_tab_set)


lemma inject_player_fold:
  "inject_player rt env pd = fold (\<lambda>kv r. tab_set r env (VStr (fst kv)) (to_lua (snd kv))) pd rt"
  by (simp add: inject_player_def case_prod_unfold)

lemma tab_get_inject_player_other:
  "r \<noteq> env \<Longrightarrow> tab_get (inject_player rt env pd) r k = tab_get rt r k"
  by (simp add: inject_player_fold tab_get_fold_other)

lemma tab_get_inject_player_notin:
  "k \<notin> fst ` set pd \<Longrightarrow> tab_get (inject_player rt env pd) env (VStr k) = tab_get rt env (VStr k)"
  unfolding inject_player_fold
  by (induction pd arbitrary: rt) (auto simp: tab_get_tab_set)

lemma tab_get_inject_player_in:
  "distinct (map fst pd) \<Longrightarrow> map_of pd k = Some v \<Longrightarrow>
   tab_get (inject_player rt env pd) env (VStr k) = to_lua v"
proof (induction pd arbitrary: rt)
  case Nil
  then show ?case by simp
next
  case (Cons kv pd)
  show ?case
  proof (cases "fst kv = k")
    case True
    with Cons.prems have "k \<notin> fst ` set pd" and "snd kv = v" by auto
    then show ?thesis
      using tab_get_inject_player_notin [of k pd "tab_set rt env (VStr (fst kv)) (to_lua (snd kv))" env]
      by (simp add: inject_player_fold tab_get_tab_set True)
  next
    case False
    with Cons.prems have "distinct (map fst pd)" and "map_of pd k = Some v" by auto
    from Cons.IH [OF this] show ?thesis by (simp add: inject_player_fold)
  qed
qed

lemma prepare_unfold:
  "prepare self =
     (next_tab (lua self),
      inject_choices (player_env self) (next_tab (lua self)) (get_choices (cur_node self)) [])"
  by (simp add: prepare_def player_env_def Let_def case_prod_unfold fst_eval_env_table
      fst_table_from next_tab_tab_set next_tab_eval_env_table)

lemma prepare_Inr:
  assumes "prepare self = (env, rt, Inr cm)"
  shows "env = next_tab (lua self)"
    and "\<forall>c\<in>set (get_choices (cur_node self)). map_of c ''id'' \<noteq> None"
    and "rt = fold (\<lambda>i r. tab_set r env (VStr (flag_name i)) (VBool True))
                (choice_ids (get_choices (cur_node self))) (player_env self)"
    and "cm = fold (\<lambda>i m. dict_set m (to_lua_safe_id i) i)
                (choice_ids (get_choices (cur_node self))) []"
proof -
  from assms show e: "env = next_tab (lua self)" by (simp add: prepare_unfold)
  from assms have i: "inject_choices (player_env self) env (get_choices (cur_node self)) []
      = (rt, Inr cm)"
    by (auto simp: prepare_unfold)
  from inject_choices_Inr [OF i]
  show a: "\<forall>c\<in>set (get_choices (cur_node self)). map_of c ''id'' \<noteq> None" .
  from inject_choices_ok [OF a, of "player_env self" env "[]"] i
  show "rt = fold (\<lambda>i r. tab_set r env (VStr (flag_name i)) (VBool True))
                (choice_ids (get_choices (cur_node self))) (player_env self)"
    and "cm = fold (\<lambda>i m. dict_set m (to_lua_safe_id i) i)
                (choice_ids (get_choices (cur_node self))) []"
    by simp_all
qed

lemma prepare_Inl:
  "\<exists>c\<in>set (get_choices (cur_node self)). map_of c ''id'' = None \<Longrightarrow>
   snd (snd (prepare self)) = Inl (KeyError ''id'')"
  by (simp add: prepare_unfold inject_choices_Inl)

lemma prepared_flag:
  assumes "prepare self = (env, rt, Inr cm)"
    and "i \<in> set (choice_ids (get_choices (cur_node self)))"
  shows "tab_get rt env (VStr (flag_name i)) = VBool True"
  using assms(2) by (simp add: prepare_Inr(3) [OF assms(1)] tab_get_fold_flags)

lemma prepared_player:
  assumes "prepare self = (env, rt, Inr cm)"
    and "distinct (map fst (player_data self))"
    and "map_of (player_data self) k = Some v"
    and "k \<notin> flag_name ` set (choice_ids (get_choices (cur_node self)))"
  shows "tab_get rt env (VStr k) = to_lua v"
proof -
  from assms(4) have "VStr k \<notin> (\<lambda>i. VStr (flag_name i)) ` set (choice_ids (get_choices (cur_node self)))"
    by auto
  then have "tab_get rt env (VStr k) = tab_get (player_env self) env (VStr k)"
    by (simp add: prepare_Inr(3) [OF assms(1)] tab_get_fold_flags)
  also have "\<dots> = to_lua v"
    by (simp add: player_env_def Let_def prepare_Inr(1) [OF assms(1)]
        tab_get_inject_player_in [OF assms(2) assms(3)])
  finally show ?thesis .
qed




lemma fold_dict_set_fresh:
  "distinct (map f xs) \<Longrightarrow> set (map f xs) \<inter> set (map fst d) = {} \<Longrightarrow>
   fold (\<lambda>x m. dict_set m (f x) (g x)) xs d = d @ map (\<lambda>x. (f x, g x)) xs"
proof (induction xs arbitrary: d)
  case Nil
  then show ?case by simp
next
  case (Cons x xs)
  from Cons.prems have n: "f x \<notin> set (map fst d)" by auto
  have "set (map f xs) \<inter> set (map fst (d @ [(f x, g x)])) = {}"
    using Cons.prems by auto
  with Cons.IH [of "d @ [(f x, g x)]"] Cons.prems show ?case
    by (simp add: dict_set_new [OF n])
qed


lemma keys_fold_dict_set:
  "set (map fst (fold (\<lambda>x m. dict_set m (f x) (g x)) xs d)) = set (map fst d) \<union> f ` set xs"
  by (induction xs arbitrary: d) (auto simp: keys_dict_set [simplified])



lemma map_of_fold_dict_set_in:
  "map_of (fold (\<lambda>x m. dict_set m (f x) (g x)) xs []) s = Some y \<Longrightarrow>
   \<exists>x\<in>set xs. f x = s \<and> g x = y"
proof (induction xs arbitrary: y rule: rev_induct)
  case Nil
  then show ?case by simp
next
  case (snoc x xs)
  then show ?case by (auto simp: map_of_dict_set split: if_splits)
qed

lemma map_of_fold_dict_set_some:
  "x \<in> set xs \<Longrightarrow> \<exists>y. map_of (fold (\<lambda>x m. dict_set m (f x) (g x)) xs d) (f x) = Some y"
proof -
  assume "x \<in> set xs"
  then have "f x \<in> set (map fst (fold (\<lambda>x m. dict_set m (f x) (g x)) xs d))"
    by (simp add: keys_fold_dict_set del: set_map)
  then show ?thesis
    by (cases "map_of (fold (\<lambda>x m. dict_set m (f x) (g x)) xs d) (f x)")
       (auto simp: map_of_eq_None_iff)
qed


lemma safe_wrapper_WTrue:
  "safe_wrapper ld env code h = Some (WTrue e, h') \<Longrightarrow> e = env"
  by (auto simp: safe_wrapper_def split: option.splits sum.splits run_status.splits prod.splits)

lemma execute_success:
  assumes "execute ld self script = Some (self', out, Returned (Some r))"
  obtains env rt cm h where
    "prepare self = (env, rt, Inr cm)"
    "safe_wrapper ld env script \<lparr>h_rt = rt, h_objs = get_choices (cur_node self)\<rparr>
      = Some (WTrue env, h)"
    "self' = self\<lparr>lua := h_rt h, cur_node := store_objs (cur_node self) (h_objs h)\<rparr>"
    "out = []"
    "r = \<lparr>res_url = from_lua (tab_get (h_rt h) env (VStr ''url'')),
         res_description = from_lua (tab_get (h_rt h) env (VStr ''description'')),
         res_player_data = extract_player (h_rt h) env (player_data self),
         res_choices_visibility = extract_choices (h_rt h) env cm\<rparr>"
    "\<forall>k. after_run ld self script k = Some (tab_get (h_rt h) env (VStr k))"
    "\<forall>k. injected self k = tab_get rt env (VStr k)"
proof -
  obtain env rt res where p: "prepare self = (env, rt, res)" by (cases "prepare self") auto
  from assms p obtain cm where r: "res = Inr cm"
    by (cases res) (auto simp: execute_def)
  from assms p r obtain w h where
    w: "safe_wrapper ld env script \<lparr>h_rt = rt, h_objs = get_choices (cur_node self)\<rparr> = Some (w, h)"
    by (auto simp: execute_def split: option.splits)
  from assms p r w obtain e where e: "w = WTrue e"
    by (cases w) (auto simp: execute_def Let_def)
  from w e have ee: "e = env" by (auto dest: safe_wrapper_WTrue)
  show thesis
  proof (rule that [of env rt cm h])
    show "prepare self = (env, rt, Inr cm)" using p r by simp
    show "safe_wrapper ld env script \<lparr>h_rt = rt, h_objs = get_choices (cur_node self)\<rparr>
        = Some (WTrue env, h)"
      using w e ee by simp
    show "self' = self\<lparr>lua := h_rt h, cur_node := store_objs (cur_node self) (h_objs h)\<rparr>"
      using assms p r w e ee by (auto simp: execute_def Let_def)
    show "out = []"
      using assms p r w e ee by (auto simp: execute_def Let_def)
    show "r = \<lparr>res_url = from_lua (tab_get (h_rt h) env (VStr ''url'')),
         res_description = from_lua (tab_get (h_rt h) env (VStr ''description'')),
         res_player_data = extract_player (h_rt h) env (player_data self),
         res_choices_visibility = extract_choices (h_rt h) env cm\<rparr>"
      using assms p r w e ee by (auto simp: execute_def Let_def)
    show "\<forall>k. after_run ld self script k = Some (tab_get (h_rt h) env (VStr k))"
      using p r w e ee by (simp add: after_run_def)
    show "\<forall>k. injected self k = tab_get rt env (VStr k)"
      using p by (simp add: injected_def)
  qed
qed

lemma extract_player_distinct:
  "distinct (map fst pd) \<Longrightarrow>
   extract_player rt env pd = map (\<lambda>k. (k, from_lua (tab_get rt env (VStr k)))) (map fst pd)"
  using fold_dict_set_fresh [of "\<lambda>k. k" "map fst pd" "[]" "\<lambda>k. from_lua (tab_get rt env (VStr k))"]
  by (simp add: extract_player_def)

lemma extract_choices_fold:
  "extract_choices rt env cm =
     fold (\<lambda>p m. dict_set m (snd p) (from_lua (tab_get rt env (VStr (''choice_'' @ fst p))))) cm []"
  by (simp add: extract_choices_def case_prod_unfold)

lemma from_lua_to_lua: "from_lua (to_lua v) = v"
  by (cases v) simp_all

lemma map_of_map_keys_in: "k \<in> set ks \<Longrightarrow> map_of (map (\<lambda>k. (k, f k)) ks) k = Some (f k)"
  by (induction ks) auto


lemma prepare_choice_map:
  "snd (snd (prepare self)) =
     (if \<forall>c\<in>set (get_choices (cur_node self)). map_of c ''id'' \<noteq> None
      then Inr (fold (\<lambda>i m. dict_set m (to_lua_safe_id i) i)
                  (choice_ids (get_choices (cur_node self))) [])
      else Inl (KeyError ''id''))"
proof (cases "\<forall>c\<in>set (get_choices (cur_node self)). map_of c ''id'' \<noteq> None")
  case True
  then show ?thesis by (simp add: prepare_unfold inject_choices_ok)
next
  case False
  then have "\<exists>c\<in>set (get_choices (cur_node self)). map_of c ''id'' = None" by simp
  from prepare_Inl [OF this] False show ?thesis by simp
qed

lemma prepare_triple:
  "snd (snd (prepare self)) = r \<Longrightarrow> prepare self = (fst (prepare self), fst (snd (prepare self)), r)"
  by (cases "prepare self") auto



subsection \<open>The fragment of Lua\<close>




lemma result_of_Some:
  "result_of x = Some r \<Longrightarrow> \<exists>s out. x = Some (s, out, Returned (Some r))"
  by (auto simp: result_of_def split: option.splits outcome.splits)


subsection \<open>The example scripts, parsed and run\<close>

lemma parse_empty: "parse_source [] = POk [] []"
  by code_simp

lemma parse_conditional:
  "parse_source script_conditional =
     POk [SAssignGlobal ''energy'' (EBin BAdd (EVar ''energy'') (ENum 10)),
          SIf (EBin BGt (EVar ''energy'') (ENum 25))
            [SAssignGlobal ''choice_3da81c9d_67bc_4419_ae5a_082c388a6d6d'' EFalse] []] []"
  by code_simp

lemma parse_unbalanced: "parse_source script_unbalanced = PSyntax ''end expected near <eof>''"
  by code_simp

lemma parse_open_file:
  "parse_source script_open_file =
     POk [SCall (EIndex (EVar ''io'') (EStr ''open'')) [EStr ''save.txt'', EStr ''w'']] []"
  by code_simp

lemma parse_counter:
  "parse_source script_counter =
     POk [SAssignIndex (EVar ''math'') (EStr ''n'')
            (EBin BAdd (EParen (EBin BOr (EIndex (EVar ''math'') (EStr ''n'')) (ENum 0))) (ENum 1)),
          SAssignGlobal ''energy'' (EIndex (EVar ''math'') (EStr ''n''))] []"
  by code_simp

lemma parse_rename:
  "parse_source script_rename =
     POk [SAssignIndex (EIndex (EVar ''choices'') (ENum 1)) (EStr ''text'') (EStr ''x'')] []"
  by code_simp

lemma parse_describe:
  "parse_source script_describe =
     POk [SAssignGlobal ''description'' (EStr ''You feel energized by the forest.'')] []"
  by code_simp

lemma parse_save:
  "parse_source script_save =
     POk [SAssignGlobal ''energy'' (EBin BAdd (EVar ''energy'') (ENum 10)),
          SIf (EBin BGt (EVar ''energy'') (ENum 25))
            [SCall (EIndex (EVar ''io'') (EStr ''open'')) [EStr ''save.txt'', EStr ''w'']] []] []"
  by code_simp

lemma parse_guarded:
  "parse_source script_guarded =
     POk [SIf (EVar ''io'')
            [SCall (EIndex (EVar ''io'') (EStr ''open'')) [EStr ''save.txt'', EStr ''w'']] []] []"
  by code_simp

lemmas parse_examples = parse_empty parse_conditional parse_unbalanced parse_open_file
  parse_counter parse_rename parse_describe parse_save parse_guarded

lemmas run_simps = execute_def prepare_def eval_env_table_def Let_def new_table_def tab_set_def
  tab_get_def table_from_def inject_player_def init_def new_runtime_def get_url_def
  get_description_def get_choices_def to_lua_safe_id_def safe_wrapper_def run_block_def
  lua_load_def binary_def uninterpreted_def exact_def is_str_def extract_player_def
  extract_choices_def store_objs_def result_of_def outcome_of_def printed_of_def
  sandbox_after_def lib_fields_def lib_name_def math_ref_def string_ref_def table_ref_def node_data_def player_vars_def
  collision_node_def broken_node_def flag_clash_node_def flag_clash_player_def
  after_run_def injected_def untouched_def flag_name_def choice_ids_def map_filter_simps

section \<open>The claims\<close>

text \<open>
  C1. The claim: whatever the node data, the player data and the script, \<^verbatim>\<open>execute\<close>
  returns a value, and no exception leaves it. On the code it fails: the loop that
  injects the flags reads \<^verbatim>\<open>choice['id']\<close> before the \<^verbatim>\<open>try\<close> statement, so with a
  choice record that has no \<^verbatim>\<open>id\<close> key the call ends in a \<^verbatim>\<open>KeyError\<close>, whatever
  the script and the interpreter are.
\<close>

theorem choice_without_id_raises:
  "outcome_of (execute ld (init broken_node player_vars) user_script) =
     Some (Raised (KeyError ''id''))"
  by (simp add: run_simps)




text \<open>
  C3. The conditional-visibility example: on the node with the two choices and the
  player data \<^verbatim>\<open>{"energy": 20}\<close>, the script that adds 10 to \<^verbatim>\<open>energy\<close> and hides the
  second choice when \<^verbatim>\<open>energy > 25\<close> succeeds, with \<^verbatim>\<open>energy\<close> 30, the second choice
  invisible and the first visible.
\<close>

theorem conditional_visibility_example:
  "result_of (execute lua_load (init node_data player_vars) script_conditional) =
     Some \<lparr>res_url = PStr ''https://forest.com'',
            res_description = PStr ''The trees whisper.'',
            res_player_data = [(''energy'', PInt 30)],
            res_choices_visibility =
              [(''52cd4b74-08d2-4709-8804-e6fa6deebe36'', PBool True),
               (''3da81c9d-67bc-4419-ae5a-082c388a6d6d'', PBool False)]\<rparr>"
  by (simp add: run_simps parse_examples)

text \<open>
  C4 (amended). For every successful call on a node whose choices have pairwise
  different safe names, the visibility dict has one entry per choice of the node, keyed
  by the original identifiers in the order of the node, and the value is \<^verbatim>\<open>True\<close> for
  every choice whose flag the script has left as it was.
\<close>

theorem visibility_entries_when_safe_names_distinct:
  assumes ex: "result_of (execute ld self user_script) = Some r"
    and d: "distinct (map to_lua_safe_id (choice_ids (get_choices (cur_node self))))"
  shows "map fst (res_choices_visibility r) = choice_ids (get_choices (cur_node self))
       \<and> length (res_choices_visibility r) = length (get_choices (cur_node self))
       \<and> (\<forall>real_id\<in>set (choice_ids (get_choices (cur_node self))).
             untouched ld self user_script (flag_name real_id) \<longrightarrow>
             map_of (res_choices_visibility r) real_id = Some (PBool True))"
proof -
  let ?ids = "choice_ids (get_choices (cur_node self))"
  from result_of_Some [OF ex] obtain self' out where
    ex': "execute ld self user_script = Some (self', out, Returned (Some r))" by blast
  from ex' obtain env rt cm h where
    p: "prepare self = (env, rt, Inr cm)" and
    sw: "safe_wrapper ld env user_script \<lparr>h_rt = rt, h_objs = get_choices (cur_node self)\<rparr>
      = Some (WTrue env, h)" and
    ss: "self' = self\<lparr>lua := h_rt h, cur_node := store_objs (cur_node self) (h_objs h)\<rparr>" and
    oo: "out = []" and
    rr: "r = \<lparr>res_url = from_lua (tab_get (h_rt h) env (VStr ''url'')),
         res_description = from_lua (tab_get (h_rt h) env (VStr ''description'')),
         res_player_data = extract_player (h_rt h) env (player_data self),
         res_choices_visibility = extract_choices (h_rt h) env cm\<rparr>" and
    a: "\<forall>k. after_run ld self user_script k = Some (tab_get (h_rt h) env (VStr k))" and
    i: "\<forall>k. injected self k = tab_get rt env (VStr k)"
    by (rule execute_success)
  have v: "res_choices_visibility r = extract_choices (h_rt h) env cm"
    by (simp add: rr)
  have di: "distinct ?ids" using d by (rule distinct_map [THEN iffD1, THEN conjunct1])
  have cm: "cm = map (\<lambda>i. (to_lua_safe_id i, i)) ?ids"
    using fold_dict_set_fresh [of to_lua_safe_id ?ids "[]" "\<lambda>i. i"] d
    by (simp add: prepare_Inr(4) [OF p])
  have vis: "res_choices_visibility r =
      map (\<lambda>i. (i, from_lua (tab_get (h_rt h) env (VStr (flag_name i))))) ?ids"
    using fold_dict_set_fresh [of "\<lambda>i. i" ?ids "[]"
        "\<lambda>i. from_lua (tab_get (h_rt h) env (VStr (flag_name i)))"] di
    by (simp add: v extract_choices_fold cm fold_map comp_def flag_name_def)
  have len: "length ?ids = length (get_choices (cur_node self))"
    by (rule length_choice_ids [OF prepare_Inr(2) [OF p]])
  have keys: "map fst (res_choices_visibility r) = ?ids"
    by (simp add: vis comp_def)
  have vals: "map_of (res_choices_visibility r) real_id = Some (PBool True)"
    if m: "real_id \<in> set ?ids" and u: "untouched ld self user_script (flag_name real_id)"
    for real_id
  proof -
    from u have "tab_get (h_rt h) env (VStr (flag_name real_id)) = tab_get rt env (VStr (flag_name real_id))"
      by (simp add: untouched_def a i)
    also have "\<dots> = VBool True" by (rule prepared_flag [OF p m])
    finally have t: "tab_get (h_rt h) env (VStr (flag_name real_id)) = VBool True" .
    have "map_of (res_choices_visibility r) real_id =
        Some (from_lua (tab_get (h_rt h) env (VStr (flag_name real_id))))"
      using m unfolding vis by (rule map_of_map_keys_in)
    with t show ?thesis by simp
  qed
  from keys len vals show ?thesis by (simp add: vis)
qed

text \<open>
  The theorem on the node of the test in script.py, with a script that sets the
  description only: both original identifiers come back, mapped to \<^verbatim>\<open>True\<close>.
\<close>

theorem visibility_entries_witness:
  "result_of (execute lua_load (init node_data player_vars) script_describe) =
     Some \<lparr>res_url = PStr ''https://forest.com'',
            res_description = PStr ''You feel energized by the forest.'',
            res_player_data = [(''energy'', PInt 20)],
            res_choices_visibility =
              [(''52cd4b74-08d2-4709-8804-e6fa6deebe36'', PBool True),
               (''3da81c9d-67bc-4419-ae5a-082c388a6d6d'', PBool True)]\<rparr>
   \<and> distinct (map to_lua_safe_id
         (choice_ids (get_choices (cur_node (init node_data player_vars)))))
   \<and> length (get_choices (cur_node (init node_data player_vars))) = 2
   \<and> untouched lua_load (init node_data player_vars) script_describe
         (flag_name ''52cd4b74-08d2-4709-8804-e6fa6deebe36'')
   \<and> untouched lua_load (init node_data player_vars) script_describe
         (flag_name ''3da81c9d-67bc-4419-ae5a-082c388a6d6d'')"
proof -
  let ?self = "init node_data player_vars"
  let ?r = "\<lparr>res_url = PStr ''https://forest.com'',
            res_description = PStr ''You feel energized by the forest.'',
            res_player_data = [(''energy'', PInt 20)],
            res_choices_visibility =
              [(''52cd4b74-08d2-4709-8804-e6fa6deebe36'', PBool True),
               (''3da81c9d-67bc-4419-ae5a-082c388a6d6d'', PBool True)]\<rparr>"
  have ex: "result_of (execute lua_load ?self script_describe) = Some ?r"
    by (simp add: run_simps parse_examples)
  have d: "distinct (map to_lua_safe_id (choice_ids (get_choices (cur_node ?self))))"
    by (simp add: run_simps)
  have u1: "untouched lua_load ?self script_describe
              (flag_name ''52cd4b74-08d2-4709-8804-e6fa6deebe36'')"
    by (simp add: run_simps parse_examples)
  have u2: "untouched lua_load ?self script_describe
              (flag_name ''3da81c9d-67bc-4419-ae5a-082c388a6d6d'')"
    by (simp add: run_simps parse_examples)
  from visibility_entries_when_safe_names_distinct [OF ex d] ex d u1 u2 show ?thesis
    by simp
qed

text \<open>
  C4 as stated fails: a successful call on the node with the choices \<^verbatim>\<open>a-b\<close> and
  \<^verbatim>\<open>a_b\<close> gives one entry for two choices.
\<close>

theorem visibility_entries_collision_counterexample:
  "result_of (execute lua_load (init collision_node player_vars) []) =
     Some \<lparr>res_url = PStr [], res_description = PStr [],
            res_player_data = [(''energy'', PInt 20)],
            res_choices_visibility = [(''a_b'', PBool True)]\<rparr>
   \<and> length (get_choices (cur_node (init collision_node player_vars))) = 2
   \<and> choice_ids (get_choices (cur_node (init collision_node player_vars))) = [''a-b'', ''a_b'']"
  by (simp add: run_simps parse_examples)

text \<open>
  C5 (amended). For a node whose choices all have an identifier, looking the safe name of
  a choice up in the reverse table that the call has built gives back the original
  identifier, for every choice of the node, exactly when the mangling is injective on
  the identifiers of the node. (It is not injective on all strings, see the
  counterexample.)
\<close>

theorem choice_map_round_trip_iff_injective:
  assumes "snd (snd (prepare self)) = Inr choice_map"
  shows "(\<forall>real_id\<in>set (choice_ids (get_choices (cur_node self))).
            map_of choice_map (to_lua_safe_id real_id) = Some real_id)
         \<longleftrightarrow> inj_on to_lua_safe_id (set (choice_ids (get_choices (cur_node self))))"
proof
  let ?ids = "choice_ids (get_choices (cur_node self))"
  have cm: "choice_map = fold (\<lambda>i m. dict_set m (to_lua_safe_id i) i) ?ids []"
    by (rule prepare_Inr(4) [OF prepare_triple [OF assms]])
  {
    assume rt: "\<forall>real_id\<in>set ?ids. map_of choice_map (to_lua_safe_id real_id) = Some real_id"
    show "inj_on to_lua_safe_id (set ?ids)"
    proof (rule inj_onI)
      fix a b
      assume "a \<in> set ?ids" "b \<in> set ?ids" "to_lua_safe_id a = to_lua_safe_id b"
      with rt have "Some a = Some b" by metis
      then show "a = b" by simp
    qed
  }
  {
    assume inj: "inj_on to_lua_safe_id (set ?ids)"
    show "\<forall>real_id\<in>set ?ids. map_of choice_map (to_lua_safe_id real_id) = Some real_id"
    proof
      fix a
      assume a: "a \<in> set ?ids"
      from map_of_fold_dict_set_some [OF a, of to_lua_safe_id "\<lambda>i. i" "[]"]
      obtain y where y: "map_of choice_map (to_lua_safe_id a) = Some y"
        by (auto simp: cm)
      from map_of_fold_dict_set_in [of to_lua_safe_id "\<lambda>i. i" ?ids "to_lua_safe_id a" y] y
      have "y \<in> set ?ids" and "to_lua_safe_id y = to_lua_safe_id a"
        by (auto simp: cm)
      with inj a have "y = a" by (auto dest: inj_onD)
      with y show "map_of choice_map (to_lua_safe_id a) = Some a" by simp
    qed
  }
qed

text \<open>
  The theorem at the node of the test in script.py: the reverse table of its two
  identifiers gives both back, so the mangling is injective on them.
\<close>

theorem choice_map_round_trip_witness:
  "snd (snd (prepare (init node_data player_vars))) =
     Inr [(''52cd4b74_08d2_4709_8804_e6fa6deebe36'', ''52cd4b74-08d2-4709-8804-e6fa6deebe36''),
          (''3da81c9d_67bc_4419_ae5a_082c388a6d6d'', ''3da81c9d-67bc-4419-ae5a-082c388a6d6d'')]
   \<and> inj_on to_lua_safe_id (set (choice_ids (get_choices (cur_node (init node_data player_vars)))))"
proof -
  have ids: "choice_ids (get_choices (cur_node (init node_data player_vars))) =
      [''52cd4b74-08d2-4709-8804-e6fa6deebe36'', ''3da81c9d-67bc-4419-ae5a-082c388a6d6d'']"
    by (simp add: init_def node_data_def get_choices_def choice_ids_def map_filter_simps)
  have p: "snd (snd (prepare (init node_data player_vars))) =
     Inr [(''52cd4b74_08d2_4709_8804_e6fa6deebe36'', ''52cd4b74-08d2-4709-8804-e6fa6deebe36''),
          (''3da81c9d_67bc_4419_ae5a_082c388a6d6d'', ''3da81c9d-67bc-4419-ae5a-082c388a6d6d'')]"
    unfolding prepare_choice_map ids
    by (simp add: init_def node_data_def get_choices_def to_lua_safe_id_def)
  from choice_map_round_trip_iff_injective [OF p] show ?thesis
    unfolding ids by (simp add: p to_lua_safe_id_def)
qed

text \<open>
  C5 as stated fails: \<^verbatim>\<open>a-b\<close> and \<^verbatim>\<open>a_b\<close> have the same safe name, and the reverse
  table of a node with both gives \<^verbatim>\<open>a_b\<close> for it.
\<close>

theorem choice_map_collision_counterexample:
  "snd (snd (prepare (init collision_node player_vars))) = Inr [(''a_b'', ''a_b'')]
   \<and> to_lua_safe_id ''a-b'' = ''a_b'' \<and> to_lua_safe_id ''a_b'' = ''a_b''
   \<and> map_of [(''a_b'', ''a_b'')] (to_lua_safe_id ''a-b'') \<noteq> Some ''a-b''"
proof -
  have ids: "choice_ids (get_choices (cur_node (init collision_node player_vars))) =
      [''a-b'', ''a_b'']"
    by (simp add: init_def collision_node_def get_choices_def choice_ids_def map_filter_simps)
  show ?thesis
    unfolding prepare_choice_map ids
    by (simp add: init_def collision_node_def get_choices_def to_lua_safe_id_def)
qed

text \<open>
  C6 (amended). Whenever \<^verbatim>\<open>execute\<close> returns without a result, the value it returns
  is \<^verbatim>\<open>None\<close>, and it has printed one line, which tells the stage: the line
  starts with \<^verbatim>\<open>Syntax Error: \<close> when the script did not load, with
  \<^verbatim>\<open>Runtime Error: \<close> when the chunk raised a Lua error, and with
  \<^verbatim>\<open>Sandbox Crash: \<close> when the call of the wrapper raised in Python.
\<close>

theorem failure_returns_none_and_prints_tag:
  assumes "outcome_of (execute ld self user_script) = Some (Returned None)"
  shows "(\<exists>err. ld user_script = Some (Inl err)
            \<and> printed_of (execute ld self user_script) = [''Syntax Error: '' @ err])
       \<or> (\<exists>chunk res h'. ld user_script = Some (Inr chunk)
            \<and> chunk (fst (prepare self))
                 \<lparr>h_rt = fst (snd (prepare self)), h_objs = get_choices (cur_node self)\<rparr>
               = Some (RunError res, h')
            \<and> printed_of (execute ld self user_script) = [''Runtime Error: '' @ res])
       \<or> (\<exists>chunk e h'. ld user_script = Some (Inr chunk)
            \<and> chunk (fst (prepare self))
                 \<lparr>h_rt = fst (snd (prepare self)), h_objs = get_choices (cur_node self)\<rparr>
               = Some (RunCrash e, h')
            \<and> printed_of (execute ld self user_script) = [''Sandbox Crash: '' @ e])"
  using assms
  by (auto simp: execute_def outcome_of_def printed_of_def safe_wrapper_def Let_def
      split: prod.splits sum.splits option.splits wrapped.splits run_status.splits)

text \<open>
  The theorem at the script \<^verbatim>\<open>if true then\<close>: the call returns \<^verbatim>\<open>None\<close>, so no player
  data, and the line printed starts with \<^verbatim>\<open>Syntax Error: \<close>.
\<close>

theorem failure_returns_none_witness:
  "outcome_of (execute lua_load (init node_data player_vars) script_unbalanced)
     = Some (Returned None)
   \<and> result_of (execute lua_load (init node_data player_vars) script_unbalanced) = None
   \<and> (\<exists>err. lua_load script_unbalanced = Some (Inl err)
         \<and> printed_of (execute lua_load (init node_data player_vars) script_unbalanced)
             = [''Syntax Error: '' @ err])"
proof -
  let ?self = "init node_data player_vars"
  have f: "outcome_of (execute lua_load ?self script_unbalanced) = Some (Returned None)"
    by (simp add: run_simps parse_examples)
  have l: "lua_load script_unbalanced = Some (Inl ''end expected near <eof>'')"
    by (simp add: lua_load_def parse_examples)
  have r: "result_of (execute lua_load ?self script_unbalanced) = None"
    by (simp add: run_simps parse_examples)
  from failure_returns_none_and_prints_tag [OF f] f l r show ?thesis
    by simp
qed

text \<open>
  C6 as stated fails: the returned value carries no tag and no message. A script that
  does not load and a script that loads and raises at run time both make \<^verbatim>\<open>execute\<close>
  return \<^verbatim>\<open>None\<close>.
\<close>

theorem failure_value_same_counterexample:
  "parse_source script_unbalanced = PSyntax ''end expected near <eof>''
   \<and> parse_source script_open_file =
       POk [SCall (EIndex (EVar ''io'') (EStr ''open'')) [EStr ''save.txt'', EStr ''w'']] []
   \<and> outcome_of (execute lua_load (init node_data player_vars) script_unbalanced)
       = Some (Returned None)
   \<and> outcome_of (execute lua_load (init node_data player_vars) script_open_file)
       = Some (Returned None)"
  by (simp add: run_simps parse_examples)

text \<open>
  C7 (amended). For every successful call, the returned player data has the keys of the
  input player data, in their order; and for every key that is not the name of the flag
  of a choice of the node and that the script has left as it was, the returned value is
  the input value. (The keys of a Python dict are pairwise different.)
\<close>

theorem untouched_player_values_pass_through:
  assumes ex: "result_of (execute ld self user_script) = Some r"
    and d: "distinct (map fst (player_data self))"
  shows "map fst (res_player_data r) = map fst (player_data self)
       \<and> (\<forall>k v. map_of (player_data self) k = Some v
                \<and> k \<notin> flag_name ` set (choice_ids (get_choices (cur_node self)))
                \<and> untouched ld self user_script k
             \<longrightarrow> map_of (res_player_data r) k = Some v)"
proof -
  from result_of_Some [OF ex] obtain self' out where
    ex': "execute ld self user_script = Some (self', out, Returned (Some r))" by blast
  from ex' obtain env rt cm h where
    p: "prepare self = (env, rt, Inr cm)" and
    sw: "safe_wrapper ld env user_script \<lparr>h_rt = rt, h_objs = get_choices (cur_node self)\<rparr>
      = Some (WTrue env, h)" and
    ss: "self' = self\<lparr>lua := h_rt h, cur_node := store_objs (cur_node self) (h_objs h)\<rparr>" and
    oo: "out = []" and
    rr: "r = \<lparr>res_url = from_lua (tab_get (h_rt h) env (VStr ''url'')),
         res_description = from_lua (tab_get (h_rt h) env (VStr ''description'')),
         res_player_data = extract_player (h_rt h) env (player_data self),
         res_choices_visibility = extract_choices (h_rt h) env cm\<rparr>" and
    a: "\<forall>k. after_run ld self user_script k = Some (tab_get (h_rt h) env (VStr k))" and
    i: "\<forall>k. injected self k = tab_get rt env (VStr k)"
    by (rule execute_success)
  have v: "res_player_data r = extract_player (h_rt h) env (player_data self)"
    by (simp add: rr)
  have pd: "res_player_data r =
      map (\<lambda>k. (k, from_lua (tab_get (h_rt h) env (VStr k)))) (map fst (player_data self))"
    by (simp add: v extract_player_distinct [OF d])
  have keys: "map fst (res_player_data r) = map fst (player_data self)"
    by (simp add: pd comp_def)
  have vals: "map_of (res_player_data r) k = Some v"
    if m: "map_of (player_data self) k = Some v"
      and n: "k \<notin> flag_name ` set (choice_ids (get_choices (cur_node self)))"
      and u: "untouched ld self user_script k" for k v
  proof -
    from u have "tab_get (h_rt h) env (VStr k) = tab_get rt env (VStr k)"
      by (simp add: untouched_def a i)
    also have "\<dots> = to_lua v" by (rule prepared_player [OF p d m n])
    finally have t: "from_lua (tab_get (h_rt h) env (VStr k)) = v"
      by (simp add: from_lua_to_lua)
    from m have "k \<in> set (map fst (player_data self))"
      by (auto dest: map_of_SomeD intro: rev_image_eqI)
    then have "map_of (res_player_data r) k = Some (from_lua (tab_get (h_rt h) env (VStr k)))"
      unfolding pd by (rule map_of_map_keys_in)
    with t show ?thesis by simp
  qed
  from keys vals show ?thesis by blast
qed

text \<open>
  The theorem on the inputs of the test in script.py, with a script that sets the
  description only: \<^verbatim>\<open>energy\<close> comes back as 20.
\<close>

theorem untouched_player_values_witness:
  "result_of (execute lua_load (init node_data player_vars) script_describe) =
     Some \<lparr>res_url = PStr ''https://forest.com'',
            res_description = PStr ''You feel energized by the forest.'',
            res_player_data = [(''energy'', PInt 20)],
            res_choices_visibility =
              [(''52cd4b74-08d2-4709-8804-e6fa6deebe36'', PBool True),
               (''3da81c9d-67bc-4419-ae5a-082c388a6d6d'', PBool True)]\<rparr>
   \<and> distinct (map fst (player_data (init node_data player_vars)))
   \<and> map_of (player_data (init node_data player_vars)) ''energy'' = Some (PInt 20)
   \<and> untouched lua_load (init node_data player_vars) script_describe ''energy''"
proof -
  let ?self = "init node_data player_vars"
  let ?r = "\<lparr>res_url = PStr ''https://forest.com'',
            res_description = PStr ''You feel energized by the forest.'',
            res_player_data = [(''energy'', PInt 20)],
            res_choices_visibility =
              [(''52cd4b74-08d2-4709-8804-e6fa6deebe36'', PBool True),
               (''3da81c9d-67bc-4419-ae5a-082c388a6d6d'', PBool True)]\<rparr>"
  have ex: "result_of (execute lua_load ?self script_describe) = Some ?r"
    by (simp add: run_simps parse_examples)
  have d: "distinct (map fst (player_data ?self))"
    by (simp add: run_simps)
  have m: "map_of (player_data ?self) ''energy'' = Some (PInt 20)"
    by (simp add: run_simps)
  have u: "untouched lua_load ?self script_describe ''energy''"
    by (simp add: run_simps parse_examples)
  from untouched_player_values_pass_through [OF ex d] ex d m u show ?thesis
    by simp
qed

text \<open>
  C7 as stated fails: the flags are injected after the player data, so a player variable
  with the name of a flag, here \<^verbatim>\<open>choice_a\<close> with the value 5, is handed to the script
  as \<^verbatim>\<open>true\<close> and comes back as \<^verbatim>\<open>True\<close> from a script that assigns nothing.
\<close>

theorem player_value_overwritten_counterexample:
  "player_data (init flag_clash_node flag_clash_player) = [(''choice_a'', PInt 5)]
   \<and> untouched lua_load (init flag_clash_node flag_clash_player) [] ''choice_a''
   \<and> result_of (execute lua_load (init flag_clash_node flag_clash_player) []) =
     Some \<lparr>res_url = PStr [], res_description = PStr [],
            res_player_data = [(''choice_a'', PBool True)],
            res_choices_visibility = [(''a'', PBool True)]\<rparr>"
  by (simp add: run_simps parse_examples)

text \<open>
  C8. The claim: two consecutive calls with the same node data, player data and script
  give the same result. On the code it fails: the environment table is new in each call,
  but its \<^verbatim>\<open>math\<close>, \<^verbatim>\<open>string\<close> and \<^verbatim>\<open>table\<close> entries are the library tables of the
  one runtime of the sandbox. A script that counts in a field of \<^verbatim>\<open>math\<close> gives
  \<^verbatim>\<open>energy\<close> 1 in the first call and 2 in the second, on the same node and player data.
\<close>

theorem consecutive_calls_differ:
  "result_of (execute lua_load (init node_data player_vars) script_counter) =
     Some \<lparr>res_url = PStr ''https://forest.com'',
            res_description = PStr ''The trees whisper.'',
            res_player_data = [(''energy'', PInt 1)],
            res_choices_visibility =
              [(''52cd4b74-08d2-4709-8804-e6fa6deebe36'', PBool True),
               (''3da81c9d-67bc-4419-ae5a-082c388a6d6d'', PBool True)]\<rparr>
   \<and> result_of (execute lua_load
        (sandbox_after (init node_data player_vars)
           (execute lua_load (init node_data player_vars) script_counter))
        script_counter) =
     Some \<lparr>res_url = PStr ''https://forest.com'',
            res_description = PStr ''The trees whisper.'',
            res_player_data = [(''energy'', PInt 2)],
            res_choices_visibility =
              [(''52cd4b74-08d2-4709-8804-e6fa6deebe36'', PBool True),
               (''3da81c9d-67bc-4419-ae5a-082c388a6d6d'', PBool True)]\<rparr>
   \<and> cur_node (sandbox_after (init node_data player_vars)
           (execute lua_load (init node_data player_vars) script_counter)) = node_data
   \<and> player_data (sandbox_after (init node_data player_vars)
           (execute lua_load (init node_data player_vars) script_counter)) = player_vars"
  by (simp add: run_simps parse_examples)

text \<open>
  C9. The claim: \<^verbatim>\<open>execute\<close> never changes the node data or the player data it was
  given. On the code it fails: \<^verbatim>\<open>table_from\<close> converts the list of choices only, so the
  script gets the choice records themselves, and an assignment to a field of one is an
  assignment to the dict of the node. After a successful call with the script
  \<^verbatim>\<open>choices[1].text = "x"\<close> the text of the first choice of the node is \<^verbatim>\<open>x\<close>.
\<close>

theorem script_changes_choice_record:
  "outcome_of (execute lua_load (init node_data player_vars) script_rename) =
     Some (Returned (Some \<lparr>res_url = PStr ''https://forest.com'',
            res_description = PStr ''The trees whisper.'',
            res_player_data = [(''energy'', PInt 20)],
            res_choices_visibility =
              [(''52cd4b74-08d2-4709-8804-e6fa6deebe36'', PBool True),
               (''3da81c9d-67bc-4419-ae5a-082c388a6d6d'', PBool True)]\<rparr>))
   \<and> cur_node (sandbox_after (init node_data player_vars)
         (execute lua_load (init node_data player_vars) script_rename)) =
       \<lparr>url = Some ''https://forest.com'', description = Some ''The trees whisper.'',
        choices = Some
          [[(''id'', ''52cd4b74-08d2-4709-8804-e6fa6deebe36''), (''text'', ''x'')],
           [(''id'', ''3da81c9d-67bc-4419-ae5a-082c388a6d6d''), (''text'', ''Run'')]]\<rparr>
   \<and> cur_node (sandbox_after (init node_data player_vars)
         (execute lua_load (init node_data player_vars) script_rename)) \<noteq> node_data"
  by (simp add: run_simps parse_examples)



end
